theory Spec2Isabelle
  imports Main "HOL-Library.Word" "HOL-Library.Signed_Division"
begin

section \<open>Go values used by the envelope model\<close>

text \<open>
  Go's \<open>error\<close> interface has the single method \<open>Error() string\<close>, and a nil error is
  \<open>None\<close>. An error value is either a bare message, which is what \<open>errors.New\<close> and
  \<open>fmt.Errorf\<close> without the verb \<open>%w\<close> build, or a message around another error that
  its \<open>Unwrap\<close> method gives back (what \<open>fmt.Errorf\<close> with \<open>%w\<close> builds). The sources
  build bare messages only; the handlers, which are outside them, may return either.
\<close>

datatype go_error = ErrorString (Error: string) | WrapError (Error: string) go_error

definition errors_New :: "string \<Rightarrow> go_error" where
  "errors_New text = ErrorString text"

text \<open>\<open>errors.Unwrap\<close> gives the wrapped error, or nil when there is none; \<open>errors.Is\<close>
  follows the chain of wrapped errors and looks for the target.\<close>

fun errors_Unwrap :: "go_error \<Rightarrow> go_error option" where
  "errors_Unwrap (ErrorString msg) = None"
| "errors_Unwrap (WrapError msg err) = Some err"

fun errors_Is :: "go_error \<Rightarrow> go_error \<Rightarrow> bool" where
  "errors_Is (ErrorString msg) target = (ErrorString msg = target)"
| "errors_Is (WrapError msg err) target = (WrapError msg err = target \<or> errors_Is err target)"

text \<open>\<open>int64\<close> is a 64-bit word read as two's complement; \<open>time.Duration\<close> is an
  \<open>int64\<close> count of nanoseconds.\<close>

type_synonym int64 = "64 word"
type_synonym Duration = int64

text \<open>\<open>time.Second\<close>: the number of nanoseconds of one second.\<close>

definition Second :: Duration where
  "Second = 1000000000"

text \<open>\<open>Duration.Milliseconds\<close> is \<open>int64(d) / 1e6\<close>; Go's integer division truncates
  towards zero, which is \<open>sdiv\<close> on the signed value.\<close>

definition Milliseconds :: "Duration \<Rightarrow> int64" where
  "Milliseconds d = word_of_int (sint d sdiv 1000000)"

text \<open>\<open>strconv.FormatInt(i, 10)\<close>: the decimal digits of the magnitude, most significant
  first, after a minus sign when the value is negative. The source only ever passes
  base 10.\<close>

definition digit_char :: "nat \<Rightarrow> char" where
  "digit_char d = ''0123456789'' ! d"

fun formatBits10 :: "nat \<Rightarrow> string" where
  "formatBits10 n =
     (if n < 10 then [digit_char n] else formatBits10 (n div 10) @ [digit_char (n mod 10)])"

declare formatBits10.simps [simp del]

definition FormatInt10 :: "int64 \<Rightarrow> string" where
  "FormatInt10 i =
     (if sint i < 0 then CHR ''-'' # formatBits10 (nat (- sint i)) else formatBits10 (nat (sint i)))"

text \<open>Reading a decimal string back (used to state what \<open>FormatInt10\<close> renders).\<close>

definition digit_value :: "char \<Rightarrow> nat" where
  "digit_value c = of_char c - of_char CHR ''0''"

definition decimal_value :: "string \<Rightarrow> nat" where
  "decimal_value s = foldl (\<lambda>acc c. 10 * acc + digit_value c) 0 s"

definition is_digit :: "char \<Rightarrow> bool" where
  "is_digit c = (c \<in> set ''0123456789'')"

section \<open>The envelope model (pkg/i2b2api/models/common.go)\<close>

text \<open>\<open>xml.Name\<close> of encoding/xml.\<close>

record xml_Name =
  Space :: string
  Local :: string

definition xml_Name_zero :: xml_Name where
  "xml_Name_zero = \<lparr>Space = [], Local = []\<rparr>"

text \<open>\<open>MessageHeader\<close>: the XML name and 24 string fields, in the order of the struct.\<close>

record MessageHeader =
  XMLName :: xml_Name
  I2b2VersionCompatible :: string
  Hl7VersionCompatible :: string
  SendingApplicationApplicationName :: string
  SendingApplicationApplicationVersion :: string
  SendingFacilityFacilityName :: string
  ReceivingApplicationApplicationName :: string
  ReceivingApplicationApplicationVersion :: string
  ReceivingFacilityFacilityName :: string
  DatetimeOfMessage :: string
  SecurityDomain :: string
  SecurityUsername :: string
  SecurityPassword :: string
  MessageTypeMessageCode :: string
  MessageTypeEventType :: string
  MessageTypeMessageStructure :: string
  MessageControlIDSessionID :: string
  MessageControlIDMessageNum :: string
  MessageControlIDInstanceNum :: string
  ProcessingIDProcessingID :: string
  ProcessingIDProcessingMode :: string
  AcceptAcknowledgementType :: string
  ApplicationAcknowledgementType :: string
  CountryCode :: string
  ProjectID :: string

text \<open>\<open>RequestHeader\<close>. Field names are global in a theory, so the \<open>XMLName\<close> of the
  other structs carries the struct's name as a prefix.\<close>

record RequestHeader =
  RequestHeader_XMLName :: xml_Name
  ResultWaittimeMs :: string

text \<open>\<open>Request\<close>. \<open>MessageBody\<close> is the empty interface: \<open>None\<close> is the nil interface,
  \<open>Some b\<close> a body of the type \<open>'b\<close> the operation chose.\<close>

record 'b Request =
  Request_XMLName :: xml_Name
  XMLNSMSG :: string
  XMLNSPDO :: string
  XMLNSONT :: string
  XMLNSCRCPDO :: string
  XMLNSCRCPSM :: string
  MessageHeader :: MessageHeader
  RequestHeader :: RequestHeader
  MessageBody :: "'b option"

text \<open>\<open>ResponseHeader\<close> and its anonymous nested structs, innermost first.\<close>

record Info =
  Info_Text :: string
  Info_URL :: string

record Status =
  Status_Text :: string
  Status_Type :: string

record PollingURL =
  PollingURL_Text :: string
  PollingURL_IntervalMs :: string

record Condition =
  Condition_Text :: string
  Condition_Type :: string
  Condition_CodingSystem :: string

record Conditions =
  Condition :: "Condition list"

record ResultStatus =
  Status :: Status
  PollingURL :: PollingURL
  Conditions :: Conditions

record ResponseHeader =
  ResponseHeader_XMLName :: xml_Name
  Info :: Info
  ResultStatus :: ResultStatus

record 'b Response =
  Response_XMLName :: xml_Name
  Response_MessageHeader :: MessageHeader
  Response_RequestHeader :: RequestHeader
  ResponseHeader :: ResponseHeader
  Response_MessageBody :: "'b option"

text \<open>\<open>ConnectionInfo\<close>, with the fields the data source's constructor fills in.\<close>

record ConnectionInfo =
  HiveURL :: string
  Domain :: string
  Username :: string
  Password :: string
  Project :: string
  WaitTime :: Duration

subsection \<open>The clock and the time package\<close>

text \<open>
  \<open>time.Now()\<close> reads the wall clock. The clock is a state: the sequence of instants it
  will report, and how many have been read. The instants have an abstract type \<open>'t\<close>;
  \<open>Time.Format\<close> and \<open>Time.Unix\<close> of the standard library are parameters of the model.
\<close>

record 't clock =
  instants :: "nat \<Rightarrow> 't"
  reads :: nat

definition time_Now :: "'t clock \<Rightarrow> 't \<times> 't clock" where
  "time_Now c = (instants c (reads c), c\<lparr>reads := Suc (reads c)\<rparr>)"

record 't time_pkg =
  Format :: "'t \<Rightarrow> string \<Rightarrow> string"
  Unix :: "'t \<Rightarrow> int64"

text \<open>The layout constant \<open>time.RFC3339\<close>.\<close>

definition RFC3339 :: string where
  "RFC3339 = ''2006-01-02T15:04:05Z07:00''"

subsection \<open>NewRequest, NewRequestWithBody, SetConnectionInfo, CheckStatus\<close>

definition NewRequest :: "'t time_pkg \<Rightarrow> 't clock \<Rightarrow> 'b Request \<times> 't clock" where
  "NewRequest tp c =
     (case time_Now c of (now, c') \<Rightarrow>
       (\<lparr>Request_XMLName = xml_Name_zero,
         XMLNSMSG = ''http://www.i2b2.org/xsd/hive/msg/1.1/'',
         XMLNSPDO = ''http://www.i2b2.org/xsd/hive/pdo/1.1/'',
         XMLNSONT = ''http://www.i2b2.org/xsd/cell/ont/1.1/'',
         XMLNSCRCPDO = ''http://www.i2b2.org/xsd/cell/crc/pdo/1.1/'',
         XMLNSCRCPSM = ''http://www.i2b2.org/xsd/cell/crc/psm/1.1/'',
         MessageHeader =
           \<lparr>XMLName = xml_Name_zero,
            I2b2VersionCompatible = ''0.3'',
            Hl7VersionCompatible = ''2.4'',
            SendingApplicationApplicationName = ''GeCo i2b2 Data Source'',
            SendingApplicationApplicationVersion = ''0.2'',
            SendingFacilityFacilityName = ''GeCo'',
            ReceivingApplicationApplicationName = ''i2b2 cell'',
            ReceivingApplicationApplicationVersion = ''1.7'',
            ReceivingFacilityFacilityName = ''i2b2 hive'',
            DatetimeOfMessage = Format tp now RFC3339,
            SecurityDomain = ''NOT_SET'',
            SecurityUsername = ''NOT_SET'',
            SecurityPassword = ''NOT_SET'',
            MessageTypeMessageCode = ''EQQ'',
            MessageTypeEventType = ''Q04'',
            MessageTypeMessageStructure = ''EQQ_Q04'',
            MessageControlIDSessionID = Format tp now RFC3339,
            MessageControlIDMessageNum = FormatInt10 (Unix tp now),
            MessageControlIDInstanceNum = ''0'',
            ProcessingIDProcessingID = ''P'',
            ProcessingIDProcessingMode = ''I'',
            AcceptAcknowledgementType = ''messageId'',
            ApplicationAcknowledgementType = [],
            CountryCode = ''CH'',
            ProjectID = ''NOT_SET''\<rparr>,
         RequestHeader =
           \<lparr>RequestHeader_XMLName = xml_Name_zero,
            ResultWaittimeMs = ''NOT_SET''\<rparr>,
         MessageBody = None\<rparr>, c'))"

definition NewRequestWithBody ::
  "'t time_pkg \<Rightarrow> 'b option \<Rightarrow> 't clock \<Rightarrow> 'b Request \<times> 't clock" where
  "NewRequestWithBody tp body c =
     (case NewRequest tp c of (req, c') \<Rightarrow> (req\<lparr>MessageBody := body\<rparr>, c'))"

text \<open>\<open>SetConnectionInfo\<close> has a pointer receiver: it returns the request as mutated.\<close>

definition SetConnectionInfo :: "'b Request \<Rightarrow> ConnectionInfo \<Rightarrow> 'b Request" where
  "SetConnectionInfo req ci =
     (let req1 = req\<lparr>MessageHeader := (MessageHeader req)\<lparr>SecurityDomain := Domain ci\<rparr>\<rparr>;
          req2 = req1\<lparr>MessageHeader := (MessageHeader req1)\<lparr>SecurityUsername := Username ci\<rparr>\<rparr>;
          req3 = req2\<lparr>MessageHeader := (MessageHeader req2)\<lparr>SecurityPassword := Password ci\<rparr>\<rparr>;
          req4 = req3\<lparr>MessageHeader := (MessageHeader req3)\<lparr>ProjectID := Project ci\<rparr>\<rparr>
      in req4\<lparr>RequestHeader :=
           (RequestHeader req4)\<lparr>ResultWaittimeMs := FormatInt10 (Milliseconds (WaitTime ci))\<rparr>\<rparr>)"

definition CheckStatus :: "'b Response \<Rightarrow> go_error option" where
  "CheckStatus response =
     (if Status_Type (Status (ResultStatus (ResponseHeader response))) \<noteq> ''DONE''
      then Some (errors_New (Status_Text (Status (ResultStatus (ResponseHeader response)))))
      else None)"

section \<open>The data source and its dispatcher\<close>

subsection \<open>The logger and the outside world\<close>

text \<open>
  The logrus logger is a sink: the model records each call made on it, with its level
  and its formatted message, in order. Whatever else the handlers and the database
  layer can change (the database, the remote hive) is the component \<open>external\<close>, of an
  abstract type \<open>'w\<close>.
\<close>

datatype Level = DebugLevel | InfoLevel | ErrorLevel

record 'w world =
  logger :: "(Level \<times> string) list"
  external :: 'w

definition Infof :: "string \<Rightarrow> 'w world \<Rightarrow> 'w world" where
  "Infof msg s = s\<lparr>logger := logger s @ [(InfoLevel, msg)]\<rparr>"

definition Debugf :: "string \<Rightarrow> 'w world \<Rightarrow> 'w world" where
  "Debugf msg s = s\<lparr>logger := logger s @ [(DebugLevel, msg)]\<rparr>"

definition logger_Error :: "go_error \<Rightarrow> 'w world \<Rightarrow> 'w world" where
  "logger_Error err s = s\<lparr>logger := logger s @ [(ErrorLevel, Error err)]\<rparr>"

text \<open>\<open>logError\<close>: \<open>fmt.Errorf\<close> with the verb \<open>%v\<close> prints a string as it is and an
  error by its \<open>Error()\<close> message.\<close>

definition logError :: "string \<Rightarrow> go_error option \<Rightarrow> 'w world \<Rightarrow> go_error \<times> 'w world" where
  "logError errMsg causedBy s =
     (let err = (case causedBy of
                   None \<Rightarrow> ErrorString errMsg
                 | Some cause \<Rightarrow> ErrorString (errMsg @ '': '' @ Error cause))
      in (err, logger_Error err s))"

subsection \<open>Query\<close>

text \<open>A \<open>[]byte\<close> is \<open>None\<close> when it is the nil slice; \<open>string(b)\<close> of a nil slice is
  the empty string. A slice of data objects is modelled the same way.\<close>

type_synonym bytes = "string option"

definition string_of_bytes :: "bytes \<Rightarrow> string" where
  "string_of_bytes b = (case b of None \<Rightarrow> [] | Some bs \<Rightarrow> bs)"

text \<open>
  \<open>OperationHandler\<close>: user identifier, JSON parameters and the shared identifiers of
  the output data objects, by name; it returns the JSON results, the output data objects
  and an error, and may change the world. The data objects \<open>'o\<close> and the shared
  identifiers \<open>'i\<close> are the SDK's.
\<close>

type_synonym ('w, 'o, 'i) OperationHandler =
  "string \<Rightarrow> bytes \<Rightarrow> (string \<rightharpoonup> 'i) \<Rightarrow> 'w world \<Rightarrow>
     (bytes \<times> 'o list option \<times> go_error option) \<times> 'w world"

text \<open>The six handler methods and the eight \<open>Operation\<close> constants are declared in
  other files of the package: they are parameters of \<open>Query\<close>.\<close>

record ('w, 'o, 'i) handlers =
  SearchConceptHandler :: "('w, 'o, 'i) OperationHandler"
  SearchModifierHandler :: "('w, 'o, 'i) OperationHandler"
  ExploreQueryHandler :: "('w, 'o, 'i) OperationHandler"
  GetCohortsHandler :: "('w, 'o, 'i) OperationHandler"
  AddCohortHandler :: "('w, 'o, 'i) OperationHandler"
  DeleteCohortHandler :: "('w, 'o, 'i) OperationHandler"

type_synonym Operation = string

record operations =
  OperationSearchConcept :: Operation
  OperationSearchModifier :: Operation
  OperationExploreQuery :: Operation
  OperationGetCohorts :: Operation
  OperationAddCohort :: Operation
  OperationDeleteCohort :: Operation
  OperationSurvivalQuery :: Operation
  OperationSearchOntology :: Operation

text \<open>The part of \<open>Query\<close> after the switch: call the handler, wrap its error or log
  the success and return what it returned.\<close>

definition run_handler ::
  "('w, 'o, 'i) OperationHandler \<Rightarrow> string \<Rightarrow> string \<Rightarrow> bytes \<Rightarrow> (string \<rightharpoonup> 'i) \<Rightarrow>
     'w world \<Rightarrow> (bytes \<times> 'o list option \<times> go_error option) \<times> 'w world" where
  "run_handler handler userID operation jsonParameters outputDataObjectsSharedIDs s =
     (case handler userID jsonParameters outputDataObjectsSharedIDs s of
        ((jsonResults, outputDataObjects, err), s1) \<Rightarrow>
          (case err of
             Some e \<Rightarrow>
               (case logError (''executing operation '' @ operation) (Some e) s1 of
                  (err', s2) \<Rightarrow> ((None, None, Some err'), s2))
           | None \<Rightarrow>
               ((jsonResults, outputDataObjects, None),
                Debugf (''results: '' @ string_of_bytes jsonResults)
                  (Infof (''successfully executed operation '' @ operation @
                          '' for user '' @ userID) s1))))"

definition Query ::
  "operations \<Rightarrow> ('w, 'o, 'i) handlers \<Rightarrow> string \<Rightarrow> string \<Rightarrow> bytes \<Rightarrow> (string \<rightharpoonup> 'i) \<Rightarrow>
     'w world \<Rightarrow> (bytes \<times> 'o list option \<times> go_error option) \<times> 'w world" where
  "Query ops ds userID operation jsonParameters outputDataObjectsSharedIDs s0 =
     (let s = Debugf (''parameters: '' @ string_of_bytes jsonParameters)
                (Infof (''executing operation '' @ operation @ '' for user '' @ userID) s0)
      in
        if operation = OperationSearchConcept ops then
          run_handler (SearchConceptHandler ds) userID operation jsonParameters
            outputDataObjectsSharedIDs s
        else if operation = OperationSearchModifier ops then
          run_handler (SearchModifierHandler ds) userID operation jsonParameters
            outputDataObjectsSharedIDs s
        else if operation = OperationExploreQuery ops then
          run_handler (ExploreQueryHandler ds) userID operation jsonParameters
            outputDataObjectsSharedIDs s
        else if operation = OperationGetCohorts ops then
          run_handler (GetCohortsHandler ds) userID operation jsonParameters
            outputDataObjectsSharedIDs s
        else if operation = OperationAddCohort ops then
          run_handler (AddCohortHandler ds) userID operation jsonParameters
            outputDataObjectsSharedIDs s
        else if operation = OperationDeleteCohort ops then
          run_handler (DeleteCohortHandler ds) userID operation jsonParameters
            outputDataObjectsSharedIDs s
        else if operation = OperationSurvivalQuery ops then
          (case logError ''operation survivalQuery not implemented'' None s of
             (err, s') \<Rightarrow> ((None, None, Some err), s'))
        else if operation = OperationSearchOntology ops then
          (case logError ''operation searchOntology not implemented'' None s of
             (err, s') \<Rightarrow> ((None, None, Some err), s'))
        else
          (case logError (''unknown query requested ('' @ operation @ '')'') None s of
             (err, s') \<Rightarrow> ((None, None, Some err), s')))"

subsection \<open>NewI2b2DataSource\<close>

definition DataSourceType :: string where
  "DataSourceType = ''i2b2-geco''"

text \<open>\<open>i2b2client.Client\<close> (its \<open>Logger\<close> is the one logger of the world) and
  \<open>I2b2DataSource\<close>; \<open>db\<close> is a pointer, \<open>None\<close> when nil.\<close>

record Client =
  Ci :: ConnectionInfo

record ('m, 'd) I2b2DataSource =
  DataSourceModel :: 'm
  db :: "'d option"
  i2b2Client :: Client
  i2b2OntMaxElements :: string

text \<open>
  What the constructor calls outside the repository's sources: the SDK's
  \<open>NewDataSourceModel\<close>, the database package's \<open>NewPostgresDatabase\<close> (it may change
  the world and fail) and the standard library's \<open>time.ParseDuration\<close>. Each returns
  what the Go function returns, an error beside the value.
\<close>

record ('w, 'm, 'd, 'k) outside =
  NewDataSourceModel :: "'k \<Rightarrow> string \<Rightarrow> string \<Rightarrow> string \<Rightarrow> 'm"
  NewPostgresDatabase ::
    "string \<Rightarrow> string \<Rightarrow> string \<Rightarrow> string \<Rightarrow> string \<Rightarrow> string \<Rightarrow> 'w world \<Rightarrow>
       ('d option \<times> go_error option) \<times> 'w world"
  ParseDuration :: "string \<Rightarrow> Duration \<times> go_error option"

text \<open>Indexing a \<open>map[string]string\<close>: the empty string for a key that is not there.\<close>

definition index :: "(string \<rightharpoonup> string) \<Rightarrow> string \<Rightarrow> string" where
  "index config key = (case config key of None \<Rightarrow> [] | Some v \<Rightarrow> v)"

definition NewI2b2DataSource ::
  "('w, 'm, 'd, 'k) outside \<Rightarrow> 'k \<Rightarrow> string \<Rightarrow> string \<Rightarrow> (string \<rightharpoonup> string) \<Rightarrow> 'w world \<Rightarrow>
     (('m, 'd) I2b2DataSource option \<times> go_error option) \<times> 'w world" where
  "NewI2b2DataSource out ident owner name config s =
     (let model = NewDataSourceModel out ident owner name DataSourceType in
      case NewPostgresDatabase out (index config ''db.host'') (index config ''db.port'')
             (index config ''db.db-name'') (index config ''db.schema-name'')
             (index config ''db.user'') (index config ''db.password'') s of
        ((dbh, err), s1) \<Rightarrow>
          (case err of
             Some e \<Rightarrow>
               (case logError ''initializing database connection'' (Some e) s1 of
                  (err', s2) \<Rightarrow> ((None, Some err'), s2))
           | None \<Rightarrow>
               (let ci = \<lparr>HiveURL = index config ''i2b2.api.url'',
                          Domain = index config ''i2b2.api.domain'',
                          Username = index config ''i2b2.api.username'',
                          Password = index config ''i2b2.api.password'',
                          Project = index config ''i2b2.api.project'',
                          WaitTime = 0\<rparr>
                in case ParseDuration out (index config ''i2b2.api.wait-time'') of
                     (d, perr) \<Rightarrow>
                       (let ci' = ci\<lparr>WaitTime := d\<rparr> in
                        case perr of
                          Some e \<Rightarrow>
                            (case logError ''parsing i2b2 wait time'' (Some e) s1 of
                               (err', s2) \<Rightarrow> ((None, Some err'), s2))
                        | None \<Rightarrow>
                            ((Some \<lparr>DataSourceModel = model,
                                    db = dbh,
                                    i2b2Client = \<lparr>Ci = ci'\<rparr>,
                                    i2b2OntMaxElements = index config ''i2b2.api.ont-max-elements''\<rparr>,
                              None),
                             Infof (''initialized i2b2 data source for '' @ HiveURL ci') s1)))))"

section \<open>Concrete instances\<close>

text \<open>Instances of the parameters, on which the model runs: a response with a given
  status and nothing else, the operation names as the specification lists them,
  handlers that count their calls in the world, and a constructor environment.\<close>

definition MessageHeader_zero :: MessageHeader where
  "MessageHeader_zero =
     \<lparr>XMLName = xml_Name_zero, I2b2VersionCompatible = [], Hl7VersionCompatible = [],
      SendingApplicationApplicationName = [], SendingApplicationApplicationVersion = [],
      SendingFacilityFacilityName = [], ReceivingApplicationApplicationName = [],
      ReceivingApplicationApplicationVersion = [], ReceivingFacilityFacilityName = [],
      DatetimeOfMessage = [], SecurityDomain = [], SecurityUsername = [],
      SecurityPassword = [], MessageTypeMessageCode = [], MessageTypeEventType = [],
      MessageTypeMessageStructure = [], MessageControlIDSessionID = [],
      MessageControlIDMessageNum = [], MessageControlIDInstanceNum = [],
      ProcessingIDProcessingID = [], ProcessingIDProcessingMode = [],
      AcceptAcknowledgementType = [], ApplicationAcknowledgementType = [],
      CountryCode = [], ProjectID = []\<rparr>"

definition example_response :: "string \<Rightarrow> string \<Rightarrow> unit Response" where
  "example_response ty txt =
     \<lparr>Response_XMLName = xml_Name_zero,
      Response_MessageHeader = MessageHeader_zero,
      Response_RequestHeader = \<lparr>RequestHeader_XMLName = xml_Name_zero, ResultWaittimeMs = []\<rparr>,
      ResponseHeader =
        \<lparr>ResponseHeader_XMLName = xml_Name_zero,
         Info = \<lparr>Info_Text = [], Info_URL = []\<rparr>,
         ResultStatus =
           \<lparr>Status = \<lparr>Status_Text = txt, Status_Type = ty\<rparr>,
            PollingURL = \<lparr>PollingURL_Text = [], PollingURL_IntervalMs = []\<rparr>,
            Conditions = \<lparr>Condition = []\<rparr>\<rparr>\<rparr>,
      Response_MessageBody = None\<rparr>"

definition example_operations :: operations where
  "example_operations =
     \<lparr>OperationSearchConcept = ''search-concept'',
      OperationSearchModifier = ''search-modifier'',
      OperationExploreQuery = ''explore-query'',
      OperationGetCohorts = ''get-cohorts'',
      OperationAddCohort = ''add-cohort'',
      OperationDeleteCohort = ''delete-cohort'',
      OperationSurvivalQuery = ''survival-query'',
      OperationSearchOntology = ''search-ontology''\<rparr>"

text \<open>A handler that counts its calls. Without parameters it fails, and still returns
  a payload and an object beside the error; with parameters it echoes them.\<close>

definition counting_handler :: "string \<Rightarrow> (nat, string, unit) OperationHandler" where
  "counting_handler tag userID jsonParameters outputDataObjectsSharedIDs s =
     ((case jsonParameters of
         None \<Rightarrow> (Some ''partial'', Some [tag], Some (ErrorString ''no parameters''))
       | Some p \<Rightarrow> (Some p, Some [tag], None)),
      s\<lparr>external := Suc (external s)\<rparr>)"

definition counting_handlers :: "(nat, string, unit) handlers" where
  "counting_handlers =
     \<lparr>SearchConceptHandler = counting_handler ''concept'',
      SearchModifierHandler = counting_handler ''modifier'',
      ExploreQueryHandler = counting_handler ''explore'',
      GetCohortsHandler = counting_handler ''cohorts'',
      AddCohortHandler = counting_handler ''add'',
      DeleteCohortHandler = counting_handler ''delete''\<rparr>"

definition fresh_world :: "nat world" where
  "fresh_world = \<lparr>logger = [], external = 0\<rparr>"

text \<open>A constructor environment: the database comes up when a host is configured, and
  the duration parser knows the two strings the examples use.\<close>

definition example_outside :: "(nat, string \<times> string \<times> string \<times> string, string, string) outside" where
  "example_outside =
     \<lparr>NewDataSourceModel = (\<lambda>ident owner name ty. (ident, owner, name, ty)),
      NewPostgresDatabase = (\<lambda>host port dbname schema user password s.
        (if host = [] then (None, Some (ErrorString ''no database host''))
         else (Some dbname, None), s)),
      ParseDuration = (\<lambda>str.
        if str = ''5s'' then (5 * Second, None)
        else if str = ''0'' then (0, None)
        else (0, Some (ErrorString (''time: invalid duration '' @ str))))\<rparr>"

definition example_config :: "string \<Rightarrow> string \<rightharpoonup> string" where
  "example_config waitTime =
     map_of [(''db.host'', ''localhost''), (''db.db-name'', ''i2b2''),
             (''i2b2.api.url'', ''http://hive.example/pm''),
             (''i2b2.api.password'', []),
             (''i2b2.api.wait-time'', waitTime)]"

section \<open>Decimal rendering\<close>

text \<open>What \<open>formatBits10\<close> writes is read back as the number it was given, and consists
  of decimal digits only.\<close>

lemma digit_value_digit_char: "n < 10 \<Longrightarrow> digit_value (digit_char n) = n"
proof -
  assume "n < 10"
  then have "n \<in> {0, 1, 2, 3, 4, 5, 6, 7, 8, 9}" by auto
  then show ?thesis
    by (auto simp: digit_value_def digit_char_def)
qed

lemma is_digit_digit_char: "n < 10 \<Longrightarrow> is_digit (digit_char n)"
proof -
  assume "n < 10"
  then have "n \<in> {0, 1, 2, 3, 4, 5, 6, 7, 8, 9}" by auto
  then show ?thesis
    by (auto simp: is_digit_def digit_char_def)
qed

lemma decimal_value_snoc: "decimal_value (s @ [c]) = 10 * decimal_value s + digit_value c"
  by (simp add: decimal_value_def)

lemma decimal_value_single: "decimal_value [c] = digit_value c"
  by (simp add: decimal_value_def)

lemma decimal_value_formatBits10: "decimal_value (formatBits10 n) = n"
proof (induction n rule: formatBits10.induct)
  case (1 n)
  show ?case
  proof (cases "n < 10")
    case True
    then show ?thesis
      by (simp add: formatBits10.simps [of n] decimal_value_single digit_value_digit_char)
  next
    case False
    with 1 show ?thesis
      by (simp add: formatBits10.simps [of n] decimal_value_snoc digit_value_digit_char)
  qed
qed

lemma digits_formatBits10: "list_all is_digit (formatBits10 n)"
proof (induction n rule: formatBits10.induct)
  case (1 n)
  show ?case
  proof (cases "n < 10")
    case True
    then show ?thesis
      by (simp add: formatBits10.simps [of n] is_digit_digit_char)
  next
    case False
    with 1 show ?thesis
      by (simp add: formatBits10.simps [of n] is_digit_digit_char)
  qed
qed

lemma FormatInt10_sign_magnitude:
  "FormatInt10 i = (if sint i < 0 then ''-'' else []) @ formatBits10 (nat \<bar>sint i\<bar>)"
  by (simp add: FormatInt10_def)

text \<open>Dividing by a million keeps a 64-bit value in range, so \<open>Milliseconds\<close> never
  wraps: its signed value is the truncated quotient.\<close>

lemma sdiv_million_bounds:
  fixes k :: int
  assumes "- (2 ^ 63) \<le> k" and "k < 2 ^ 63"
  shows "- (2 ^ 63) \<le> k sdiv 1000000" and "k sdiv 1000000 < 2 ^ 63"
proof -
  have "k sdiv 1000000 = (if 0 \<le> k then k div 1000000 else - ((- k) div 1000000))"
    by (simp add: signed_divide_int_def sgn_if)
  moreover have "0 \<le> k \<Longrightarrow> 0 \<le> k div 1000000 \<and> k div 1000000 \<le> k"
    by arith
  moreover have "k < 0 \<Longrightarrow> 0 \<le> (- k) div 1000000 \<and> (- k) div 1000000 \<le> - k"
    by arith
  ultimately show "- (2 ^ 63) \<le> k sdiv 1000000" and "k sdiv 1000000 < 2 ^ 63"
    using assms by (auto split: if_splits)
qed

lemma sint_Milliseconds: "sint (Milliseconds d) = sint d sdiv 1000000"
proof -
  let ?k = "sint d sdiv 1000000"
  have lo: "- (2 ^ 63) \<le> sint d" using sint_ge [of d] by simp
  have hi: "sint d < 2 ^ 63" using sint_lt [of d] by simp
  have b1: "- (2 ^ 63) \<le> ?k" and b2: "?k < 2 ^ 63"
    using sdiv_million_bounds [OF lo hi] by simp_all
  have "sint (word_of_int ?k :: 64 word) = (?k + 2 ^ 63) mod 2 ^ 64 - 2 ^ 63"
    by (simp add: int_word_sint)
  also have "(?k + 2 ^ 63) mod 2 ^ 64 = ?k + 2 ^ 63"
    using b1 b2 by (intro mod_pos_pos_trivial) simp_all
  finally show ?thesis by (simp add: Milliseconds_def)
qed

lemma Milliseconds_five_seconds: "FormatInt10 (Milliseconds (5 * Second)) = ''5000''"
  by (simp add: FormatInt10_def Milliseconds_def Second_def signed_divide_int_def
      formatBits10.simps digit_char_def)

lemma Milliseconds_zero: "FormatInt10 (Milliseconds 0) = ''0''"
  by (simp add: FormatInt10_def Milliseconds_def signed_divide_int_def
      formatBits10.simps digit_char_def)

section \<open>The response validator\<close>

text \<open>
  C1. \<open>CheckStatus\<close> returns nil exactly when the status type is the literal \<open>DONE\<close>;
  for every other status type, the empty one included, it returns the error whose
  message is the status text as it stands, the empty text included.
\<close>

theorem CheckStatus_iff_DONE:
  "(CheckStatus response = None \<longleftrightarrow>
      Status_Type (Status (ResultStatus (ResponseHeader response))) = ''DONE'') \<and>
   (Status_Type (Status (ResultStatus (ResponseHeader response))) \<noteq> ''DONE'' \<longrightarrow>
      (\<exists>e. CheckStatus response = Some e \<and>
           Error e = Status_Text (Status (ResultStatus (ResponseHeader response)))))"
  by (simp add: CheckStatus_def errors_New_def)

text \<open>The empty status type with the empty text, and the specification's scenario
  (\<open>ERROR\<close> with \<open>bad query\<close>, and \<open>DONE\<close>).\<close>

theorem CheckStatus_iff_DONE_witness:
  "CheckStatus (example_response [] []) = Some (ErrorString []) \<and>
   CheckStatus (example_response ''ERROR'' ''bad query'') = Some (ErrorString ''bad query'') \<and>
   CheckStatus (example_response ''done'' ''lower case'') = Some (ErrorString ''lower case'') \<and>
   CheckStatus (example_response ''DONE'' ''ignored'') = None"
  using CheckStatus_iff_DONE [of "example_response [] []"]
    CheckStatus_iff_DONE [of "example_response ''ERROR'' ''bad query''"]
    CheckStatus_iff_DONE [of "example_response ''done'' ''lower case''"]
    CheckStatus_iff_DONE [of "example_response ''DONE'' ''ignored''"]
  by (simp add: CheckStatus_def errors_New_def example_response_def)

section \<open>The envelope builder\<close>

text \<open>
  C5. \<open>SetConnectionInfo\<close> writes the security domain, username and password and the
  project identifier of the message header from the connection information, and the
  wait time into \<open>ResultWaittimeMs\<close> of the request header; every other field of the
  message header, and every other field of the request, is as it was.
\<close>

theorem SetConnectionInfo_frame:
  "SecurityDomain (MessageHeader (SetConnectionInfo req ci)) = Domain ci \<and>
   SecurityUsername (MessageHeader (SetConnectionInfo req ci)) = Username ci \<and>
   SecurityPassword (MessageHeader (SetConnectionInfo req ci)) = Password ci \<and>
   ProjectID (MessageHeader (SetConnectionInfo req ci)) = Project ci \<and>
   ResultWaittimeMs (RequestHeader (SetConnectionInfo req ci)) =
     FormatInt10 (Milliseconds (WaitTime ci)) \<and>
   XMLName (MessageHeader (SetConnectionInfo req ci)) = XMLName (MessageHeader req) \<and>
   I2b2VersionCompatible (MessageHeader (SetConnectionInfo req ci)) =
     I2b2VersionCompatible (MessageHeader req) \<and>
   Hl7VersionCompatible (MessageHeader (SetConnectionInfo req ci)) =
     Hl7VersionCompatible (MessageHeader req) \<and>
   SendingApplicationApplicationName (MessageHeader (SetConnectionInfo req ci)) =
     SendingApplicationApplicationName (MessageHeader req) \<and>
   SendingApplicationApplicationVersion (MessageHeader (SetConnectionInfo req ci)) =
     SendingApplicationApplicationVersion (MessageHeader req) \<and>
   SendingFacilityFacilityName (MessageHeader (SetConnectionInfo req ci)) =
     SendingFacilityFacilityName (MessageHeader req) \<and>
   ReceivingApplicationApplicationName (MessageHeader (SetConnectionInfo req ci)) =
     ReceivingApplicationApplicationName (MessageHeader req) \<and>
   ReceivingApplicationApplicationVersion (MessageHeader (SetConnectionInfo req ci)) =
     ReceivingApplicationApplicationVersion (MessageHeader req) \<and>
   ReceivingFacilityFacilityName (MessageHeader (SetConnectionInfo req ci)) =
     ReceivingFacilityFacilityName (MessageHeader req) \<and>
   DatetimeOfMessage (MessageHeader (SetConnectionInfo req ci)) =
     DatetimeOfMessage (MessageHeader req) \<and>
   MessageTypeMessageCode (MessageHeader (SetConnectionInfo req ci)) =
     MessageTypeMessageCode (MessageHeader req) \<and>
   MessageTypeEventType (MessageHeader (SetConnectionInfo req ci)) =
     MessageTypeEventType (MessageHeader req) \<and>
   MessageTypeMessageStructure (MessageHeader (SetConnectionInfo req ci)) =
     MessageTypeMessageStructure (MessageHeader req) \<and>
   MessageControlIDSessionID (MessageHeader (SetConnectionInfo req ci)) =
     MessageControlIDSessionID (MessageHeader req) \<and>
   MessageControlIDMessageNum (MessageHeader (SetConnectionInfo req ci)) =
     MessageControlIDMessageNum (MessageHeader req) \<and>
   MessageControlIDInstanceNum (MessageHeader (SetConnectionInfo req ci)) =
     MessageControlIDInstanceNum (MessageHeader req) \<and>
   ProcessingIDProcessingID (MessageHeader (SetConnectionInfo req ci)) =
     ProcessingIDProcessingID (MessageHeader req) \<and>
   ProcessingIDProcessingMode (MessageHeader (SetConnectionInfo req ci)) =
     ProcessingIDProcessingMode (MessageHeader req) \<and>
   AcceptAcknowledgementType (MessageHeader (SetConnectionInfo req ci)) =
     AcceptAcknowledgementType (MessageHeader req) \<and>
   ApplicationAcknowledgementType (MessageHeader (SetConnectionInfo req ci)) =
     ApplicationAcknowledgementType (MessageHeader req) \<and>
   CountryCode (MessageHeader (SetConnectionInfo req ci)) = CountryCode (MessageHeader req) \<and>
   RequestHeader_XMLName (RequestHeader (SetConnectionInfo req ci)) =
     RequestHeader_XMLName (RequestHeader req) \<and>
   Request_XMLName (SetConnectionInfo req ci) = Request_XMLName req \<and>
   XMLNSMSG (SetConnectionInfo req ci) = XMLNSMSG req \<and>
   XMLNSPDO (SetConnectionInfo req ci) = XMLNSPDO req \<and>
   XMLNSONT (SetConnectionInfo req ci) = XMLNSONT req \<and>
   XMLNSCRCPDO (SetConnectionInfo req ci) = XMLNSCRCPDO req \<and>
   XMLNSCRCPSM (SetConnectionInfo req ci) = XMLNSCRCPSM req \<and>
   MessageBody (SetConnectionInfo req ci) = MessageBody req"
  by (simp add: SetConnectionInfo_def)

text \<open>
  C6. \<open>ResultWaittimeMs\<close> becomes the decimal string of the wait time in whole
  milliseconds (the nanoseconds divided by a million, truncated towards zero): a minus
  sign when that number is negative, then digits that read back as its magnitude.
  In the specification's scenario, a request just built and given a wait time of five
  seconds and the project \<open>proj1\<close> carries \<open>5000\<close> and \<open>proj1\<close>; a wait time of zero
  gives \<open>0\<close>, like any other duration.
\<close>

theorem SetConnectionInfo_ResultWaittimeMs:
  "ResultWaittimeMs (RequestHeader (SetConnectionInfo req ci)) =
     (if sint (WaitTime ci) sdiv 1000000 < 0 then ''-'' else []) @
       formatBits10 (nat \<bar>sint (WaitTime ci) sdiv 1000000\<bar>) \<and>
   decimal_value (formatBits10 (nat \<bar>sint (WaitTime ci) sdiv 1000000\<bar>)) =
     nat \<bar>sint (WaitTime ci) sdiv 1000000\<bar> \<and>
   list_all is_digit (formatBits10 (nat \<bar>sint (WaitTime ci) sdiv 1000000\<bar>)) \<and>
   ResultWaittimeMs (RequestHeader (SetConnectionInfo req (ci\<lparr>WaitTime := 5 * Second\<rparr>))) =
     ''5000'' \<and>
   ResultWaittimeMs (RequestHeader (SetConnectionInfo req (ci\<lparr>WaitTime := 0\<rparr>))) = ''0'' \<and>
   ResultWaittimeMs (RequestHeader (SetConnectionInfo (fst (NewRequest tp c))
     \<lparr>HiveURL = ''http://hive.example/pm'', Domain = ''d'', Username = ''u'',
      Password = ''p'', Project = ''proj1'', WaitTime = 5 * Second\<rparr>)) = ''5000'' \<and>
   ProjectID (MessageHeader (SetConnectionInfo (fst (NewRequest tp c))
     \<lparr>HiveURL = ''http://hive.example/pm'', Domain = ''d'', Username = ''u'',
      Password = ''p'', Project = ''proj1'', WaitTime = 5 * Second\<rparr>)) = ''proj1''"
proof -
  have field: "ResultWaittimeMs (RequestHeader (SetConnectionInfo r i)) =
      FormatInt10 (Milliseconds (WaitTime i))" for r :: "'x Request" and i
    by (simp add: SetConnectionInfo_def)
  have project: "ProjectID (MessageHeader (SetConnectionInfo r i)) = Project i"
    for r :: "'x Request" and i
    by (simp add: SetConnectionInfo_def)
  have "FormatInt10 (Milliseconds (WaitTime ci)) =
      (if sint (WaitTime ci) sdiv 1000000 < 0 then ''-'' else []) @
        formatBits10 (nat \<bar>sint (WaitTime ci) sdiv 1000000\<bar>)"
    by (simp only: FormatInt10_sign_magnitude sint_Milliseconds)
  then show ?thesis
    by (simp add: field project decimal_value_formatBits10 digits_formatBits10
        Milliseconds_five_seconds Milliseconds_zero)
qed

text \<open>
  C7. A request built by \<open>NewRequest\<close> (and so by \<open>NewRequestWithBody\<close>) has as session
  identifier the clock reading formatted as a timestamp, as message number the
  Unix seconds of that reading written in decimal, and as instance number \<open>0\<close>.
\<close>

theorem NewRequest_control_id:
  "MessageControlIDSessionID (MessageHeader (fst (NewRequest tp c))) =
     Format tp (instants c (reads c)) RFC3339 \<and>
   MessageControlIDMessageNum (MessageHeader (fst (NewRequest tp c))) =
     FormatInt10 (Unix tp (instants c (reads c))) \<and>
   FormatInt10 (Unix tp (instants c (reads c))) =
     (if sint (Unix tp (instants c (reads c))) < 0 then ''-'' else []) @
       formatBits10 (nat \<bar>sint (Unix tp (instants c (reads c)))\<bar>) \<and>
   decimal_value (formatBits10 (nat \<bar>sint (Unix tp (instants c (reads c)))\<bar>)) =
     nat \<bar>sint (Unix tp (instants c (reads c)))\<bar> \<and>
   MessageControlIDInstanceNum (MessageHeader (fst (NewRequest tp c))) = ''0'' \<and>
   MessageHeader (fst (NewRequestWithBody tp body c)) = MessageHeader (fst (NewRequest tp c))"
  by (simp add: NewRequest_def NewRequestWithBody_def time_Now_def
      FormatInt10_sign_magnitude decimal_value_formatBits10)

text \<open>
  C9. Applying \<open>SetConnectionInfo\<close> twice with the same connection information gives
  the request that applying it once gives.
\<close>

theorem SetConnectionInfo_idempotent:
  "SetConnectionInfo (SetConnectionInfo req ci) ci = SetConnectionInfo req ci"
  by (simp add: SetConnectionInfo_def)

text \<open>
  C10. \<open>NewRequest\<close> reads the clock once, and every field that depends on the time
  comes from that one reading: \<open>DatetimeOfMessage\<close> equals the session identifier,
  both the RFC 3339 rendering of the reading, and the message number is its Unix
  seconds in decimal.
\<close>

theorem NewRequest_single_clock_reading:
  "snd (NewRequest tp c) = c\<lparr>reads := Suc (reads c)\<rparr> \<and>
   DatetimeOfMessage (MessageHeader (fst (NewRequest tp c))) =
     MessageControlIDSessionID (MessageHeader (fst (NewRequest tp c))) \<and>
   DatetimeOfMessage (MessageHeader (fst (NewRequest tp c))) =
     Format tp (instants c (reads c)) ''2006-01-02T15:04:05Z07:00'' \<and>
   MessageControlIDMessageNum (MessageHeader (fst (NewRequest tp c))) =
     FormatInt10 (Unix tp (instants c (reads c)))"
  by (simp add: NewRequest_def time_Now_def RFC3339_def)

section \<open>The dispatcher\<close>

text \<open>
  C2. For an operation name that is none of the eight constants, \<open>Query\<close> returns a nil
  payload, nil output objects and the error \<open>unknown query requested (name)\<close>. It logs
  the call, the parameters and the error and changes nothing else: the result is the
  same whatever the handlers are, and the world outside the logger is untouched, so no
  handler runs.
\<close>

theorem Query_unknown_operation:
  assumes "operation \<notin> {OperationSearchConcept ops, OperationSearchModifier ops,
             OperationExploreQuery ops, OperationGetCohorts ops, OperationAddCohort ops,
             OperationDeleteCohort ops, OperationSurvivalQuery ops,
             OperationSearchOntology ops}"
  shows "Query ops ds userID operation jsonParameters ids s =
           ((None, None, Some (ErrorString (''unknown query requested ('' @ operation @ '')''))),
            s\<lparr>logger := logger s @
               [(InfoLevel, ''executing operation '' @ operation @ '' for user '' @ userID),
                (DebugLevel, ''parameters: '' @ string_of_bytes jsonParameters),
                (ErrorLevel, ''unknown query requested ('' @ operation @ '')'')]\<rparr>)"
  using assms
  by (simp add: Query_def logError_def logger_Error_def Debugf_def Infof_def)

text \<open>With handlers that count their calls: the counter stays at zero.\<close>

theorem Query_unknown_operation_witness:
  "''drop-tables'' \<notin>
     {OperationSearchConcept example_operations, OperationSearchModifier example_operations,
      OperationExploreQuery example_operations, OperationGetCohorts example_operations,
      OperationAddCohort example_operations, OperationDeleteCohort example_operations,
      OperationSurvivalQuery example_operations, OperationSearchOntology example_operations} \<and>
   Query example_operations counting_handlers ''alice'' ''drop-tables'' (Some ''{}'') Map.empty
       fresh_world =
     ((None, None, Some (ErrorString ''unknown query requested (drop-tables)'')),
      \<lparr>logger = [(InfoLevel, ''executing operation drop-tables for user alice''),
                 (DebugLevel, ''parameters: {}''),
                 (ErrorLevel, ''unknown query requested (drop-tables)'')],
       external = 0\<rparr>)"
proof -
  have h: "''drop-tables'' \<notin>
     {OperationSearchConcept example_operations, OperationSearchModifier example_operations,
      OperationExploreQuery example_operations, OperationGetCohorts example_operations,
      OperationAddCohort example_operations, OperationDeleteCohort example_operations,
      OperationSurvivalQuery example_operations, OperationSearchOntology example_operations}"
    by (simp add: example_operations_def)
  show ?thesis
    using h Query_unknown_operation [OF h, of counting_handlers "''alice''" "Some ''{}''"
        Map.empty fresh_world]
    by (simp add: fresh_world_def string_of_bytes_def)
qed

text \<open>
  C3. When the eight operation constants are pairwise different (Go rejects a switch
  with two equal constant cases), \<open>Query\<close> with the survival-query or the
  search-ontology name returns, for every user and parameters, nil outputs and the
  error \<open>operation survivalQuery not implemented\<close> or \<open>operation searchOntology not
  implemented\<close>. That message is never the message of an unknown-operation error nor
  of a wrapped handler error, whatever the operation and the cause.
\<close>

theorem Query_not_implemented:
  assumes "distinct [OperationSearchConcept ops, OperationSearchModifier ops,
             OperationExploreQuery ops, OperationGetCohorts ops, OperationAddCohort ops,
             OperationDeleteCohort ops, OperationSurvivalQuery ops,
             OperationSearchOntology ops]"
    and "operation = OperationSurvivalQuery ops \<or> operation = OperationSearchOntology ops"
  shows "\<exists>msg.
           Query ops ds userID operation jsonParameters ids s =
             ((None, None, Some (ErrorString msg)),
              s\<lparr>logger := logger s @
                 [(InfoLevel, ''executing operation '' @ operation @ '' for user '' @ userID),
                  (DebugLevel, ''parameters: '' @ string_of_bytes jsonParameters),
                  (ErrorLevel, msg)]\<rparr>) \<and>
           msg = (if operation = OperationSurvivalQuery ops
                  then ''operation survivalQuery not implemented''
                  else ''operation searchOntology not implemented'') \<and>
           (\<forall>op'. msg \<noteq> ''unknown query requested ('' @ op' @ '')'') \<and>
           (\<forall>op' cause. msg \<noteq> ''executing operation '' @ op' @ '': '' @ Error cause)"
  using assms
  by (auto simp add: Query_def logError_def logger_Error_def Debugf_def Infof_def)

theorem Query_not_implemented_witness:
  "distinct [OperationSearchConcept example_operations,
     OperationSearchModifier example_operations, OperationExploreQuery example_operations,
     OperationGetCohorts example_operations, OperationAddCohort example_operations,
     OperationDeleteCohort example_operations, OperationSurvivalQuery example_operations,
     OperationSearchOntology example_operations] \<and>
   Query example_operations counting_handlers ''alice'' ''survival-query'' (Some ''{}'')
       Map.empty fresh_world =
     ((None, None, Some (ErrorString ''operation survivalQuery not implemented'')),
      \<lparr>logger = [(InfoLevel, ''executing operation survival-query for user alice''),
                 (DebugLevel, ''parameters: {}''),
                 (ErrorLevel, ''operation survivalQuery not implemented'')],
       external = 0\<rparr>) \<and>
   Query example_operations counting_handlers ''bob'' ''search-ontology'' None
       Map.empty fresh_world =
     ((None, None, Some (ErrorString ''operation searchOntology not implemented'')),
      \<lparr>logger = [(InfoLevel, ''executing operation search-ontology for user bob''),
                 (DebugLevel, ''parameters: ''),
                 (ErrorLevel, ''operation searchOntology not implemented'')],
       external = 0\<rparr>)"
  using Query_not_implemented [of example_operations "''survival-query''" counting_handlers
      "''alice''" "Some ''{}''" Map.empty fresh_world]
    Query_not_implemented [of example_operations "''search-ontology''" counting_handlers
      "''bob''" None Map.empty fresh_world]
  by (simp add: example_operations_def fresh_world_def string_of_bytes_def)

text \<open>
  C4. When the six implemented operation constants are pairwise different, the name is
  one of them and its handler returns an error, \<open>Query\<close> returns a nil payload and nil
  output objects, whatever the handler returned beside its error, and logs and returns
  a new error that is a bare message: \<open>executing operation name: cause\<close>, the operation
  name as context, then the message of the handler's error as it stands. The handler's
  error is kept as that text only: the returned error wraps nothing, and the handler's
  error is not in its chain. What the handler did to the world stays done.
\<close>

theorem Query_handler_error:
  assumes "distinct [OperationSearchConcept ops, OperationSearchModifier ops,
             OperationExploreQuery ops, OperationGetCohorts ops, OperationAddCohort ops,
             OperationDeleteCohort ops]"
    and "(operation, handler) \<in> set
           [(OperationSearchConcept ops, SearchConceptHandler ds),
            (OperationSearchModifier ops, SearchModifierHandler ds),
            (OperationExploreQuery ops, ExploreQueryHandler ds),
            (OperationGetCohorts ops, GetCohortsHandler ds),
            (OperationAddCohort ops, AddCohortHandler ds),
            (OperationDeleteCohort ops, DeleteCohortHandler ds)]"
    and "handler userID jsonParameters ids
           (Debugf (''parameters: '' @ string_of_bytes jsonParameters)
             (Infof (''executing operation '' @ operation @ '' for user '' @ userID) s)) =
         ((jsonResults, outputDataObjects, Some cause), s1)"
  shows "\<exists>err.
           Query ops ds userID operation jsonParameters ids s =
             ((None, None, Some err), s1\<lparr>logger := logger s1 @ [(ErrorLevel, Error err)]\<rparr>) \<and>
           err = ErrorString (''executing operation '' @ operation @ '': '' @ Error cause) \<and>
           errors_Unwrap err = None \<and>
           \<not> errors_Is err cause"
proof -
  let ?msg = "''executing operation '' @ operation @ '': '' @ Error cause"
  have run: "Query ops ds userID operation jsonParameters ids s =
      ((None, None, Some (ErrorString ?msg)),
       s1\<lparr>logger := logger s1 @ [(ErrorLevel, ?msg)]\<rparr>)"
    using assms
    by (auto simp add: Query_def run_handler_def logError_def logger_Error_def)
  have "length ?msg \<noteq> length (Error cause)"
    by simp
  then have "ErrorString ?msg \<noteq> cause"
    by (cases cause) auto
  then have "\<not> errors_Is (ErrorString ?msg) cause"
    by simp
  with run show ?thesis
    by simp
qed

theorem Query_handler_error_witness:
  "Query example_operations counting_handlers ''alice'' ''get-cohorts'' None Map.empty
       fresh_world =
     ((None, None, Some (ErrorString ''executing operation get-cohorts: no parameters'')),
      \<lparr>logger = [(InfoLevel, ''executing operation get-cohorts for user alice''),
                 (DebugLevel, ''parameters: ''),
                 (ErrorLevel, ''executing operation get-cohorts: no parameters'')],
       external = 1\<rparr>) \<and>
   fst (counting_handler ''cohorts'' ''alice'' None Map.empty fresh_world) =
     (Some ''partial'', Some [''cohorts''], Some (ErrorString ''no parameters''))"
  using Query_handler_error [of example_operations "''get-cohorts''"
      "counting_handler ''cohorts''" counting_handlers "''alice''" None Map.empty fresh_world
      "Some ''partial''" "Some [''cohorts'']" "ErrorString ''no parameters''"
      "\<lparr>logger = [(InfoLevel, ''executing operation get-cohorts for user alice''),
                  (DebugLevel, ''parameters: '')],
        external = 1\<rparr>"]
  by (auto simp add: example_operations_def counting_handlers_def counting_handler_def
      fresh_world_def string_of_bytes_def Debugf_def Infof_def)

text \<open>
  The handler error itself is not preserved for inspection. The get-cohorts handler
  fails with the error \<open>no parameters\<close>; the error \<open>Query\<close> returns has nothing to
  unwrap, and \<open>errors.Is\<close> does not find the handler's error in it. An error that
  wrapped the handler's would answer both.
\<close>

theorem Query_handler_error_counterexample:
  "snd (snd (fst (counting_handler ''cohorts'' ''alice'' None Map.empty
       \<lparr>logger = [(InfoLevel, ''executing operation get-cohorts for user alice''),
                  (DebugLevel, ''parameters: '')],
        external = 0\<rparr>))) = Some (ErrorString ''no parameters'') \<and>
   snd (snd (fst (Query example_operations counting_handlers ''alice'' ''get-cohorts'' None
       Map.empty fresh_world))) =
     Some (ErrorString ''executing operation get-cohorts: no parameters'') \<and>
   errors_Unwrap (the (snd (snd (fst (Query example_operations counting_handlers ''alice''
       ''get-cohorts'' None Map.empty fresh_world))))) = None \<and>
   \<not> errors_Is (the (snd (snd (fst (Query example_operations counting_handlers ''alice''
       ''get-cohorts'' None Map.empty fresh_world))))) (ErrorString ''no parameters'') \<and>
   errors_Unwrap (WrapError ''executing operation get-cohorts: no parameters''
       (ErrorString ''no parameters'')) = Some (ErrorString ''no parameters'') \<and>
   errors_Is (WrapError ''executing operation get-cohorts: no parameters''
       (ErrorString ''no parameters'')) (ErrorString ''no parameters'')"
  by (simp add: Query_def run_handler_def logError_def logger_Error_def Debugf_def Infof_def
      example_operations_def counting_handlers_def counting_handler_def fresh_world_def
      string_of_bytes_def)

section \<open>Construction of the data source\<close>

text \<open>
  C8. If the configured wait time does not parse, \<open>NewI2b2DataSource\<close> returns a nil
  data source and an error (after a successful database connection, the error
  \<open>parsing i2b2 wait time: cause\<close>). When the database connection and the parsing both
  succeed, it returns a data source whose connection information has the parsed
  duration as wait time and the configured strings as they are, whatever they are,
  empty or missing ones included.
\<close>

theorem NewI2b2DataSource_wait_time:
  "(snd (ParseDuration out (index config ''i2b2.api.wait-time'')) \<noteq> None \<longrightarrow>
      (\<exists>err. fst (NewI2b2DataSource out ident owner name config s) = (None, Some err))) \<and>
   (\<forall>dbh s1 d e.
      NewPostgresDatabase out (index config ''db.host'') (index config ''db.port'')
        (index config ''db.db-name'') (index config ''db.schema-name'')
        (index config ''db.user'') (index config ''db.password'') s = ((dbh, None), s1) \<and>
      ParseDuration out (index config ''i2b2.api.wait-time'') = (d, Some e) \<longrightarrow>
      NewI2b2DataSource out ident owner name config s =
        ((None, Some (ErrorString (''parsing i2b2 wait time: '' @ Error e))),
         s1\<lparr>logger := logger s1 @ [(ErrorLevel, ''parsing i2b2 wait time: '' @ Error e)]\<rparr>)) \<and>
   (\<forall>dbh s1 d.
      NewPostgresDatabase out (index config ''db.host'') (index config ''db.port'')
        (index config ''db.db-name'') (index config ''db.schema-name'')
        (index config ''db.user'') (index config ''db.password'') s = ((dbh, None), s1) \<and>
      ParseDuration out (index config ''i2b2.api.wait-time'') = (d, None) \<longrightarrow>
      NewI2b2DataSource out ident owner name config s =
        ((Some \<lparr>DataSourceModel = NewDataSourceModel out ident owner name DataSourceType,
                db = dbh,
                i2b2Client = \<lparr>Ci = \<lparr>HiveURL = index config ''i2b2.api.url'',
                                      Domain = index config ''i2b2.api.domain'',
                                      Username = index config ''i2b2.api.username'',
                                      Password = index config ''i2b2.api.password'',
                                      Project = index config ''i2b2.api.project'',
                                      WaitTime = d\<rparr>\<rparr>,
                i2b2OntMaxElements = index config ''i2b2.api.ont-max-elements''\<rparr>,
          None),
         s1\<lparr>logger := logger s1 @
            [(InfoLevel, ''initialized i2b2 data source for '' @ index config ''i2b2.api.url'')]\<rparr>))"
  by (auto simp add: NewI2b2DataSource_def logError_def logger_Error_def Infof_def Let_def
      split: prod.splits option.splits)

text \<open>A wait time that does not parse, then one that does, with an empty password and
  no domain, username or project configured.\<close>

theorem NewI2b2DataSource_wait_time_witness:
  "NewI2b2DataSource example_outside ''id1'' ''owner'' ''name'' (example_config ''soon'')
       fresh_world =
     ((None, Some (ErrorString ''parsing i2b2 wait time: time: invalid duration soon'')),
      \<lparr>logger = [(ErrorLevel, ''parsing i2b2 wait time: time: invalid duration soon'')],
       external = 0\<rparr>) \<and>
   NewI2b2DataSource example_outside ''id1'' ''owner'' ''name'' (example_config ''5s'')
       fresh_world =
     ((Some \<lparr>DataSourceModel = (''id1'', ''owner'', ''name'', ''i2b2-geco''),
             db = Some ''i2b2'',
             i2b2Client = \<lparr>Ci = \<lparr>HiveURL = ''http://hive.example/pm'', Domain = [],
                                   Username = [], Password = [], Project = [],
                                   WaitTime = 5000000000\<rparr>\<rparr>,
             i2b2OntMaxElements = []\<rparr>,
       None),
      \<lparr>logger = [(InfoLevel, ''initialized i2b2 data source for http://hive.example/pm'')],
       external = 0\<rparr>)"
  using NewI2b2DataSource_wait_time [of example_outside "example_config ''soon''" "''id1''"
      "''owner''" "''name''" fresh_world]
    NewI2b2DataSource_wait_time [of example_outside "example_config ''5s''" "''id1''"
      "''owner''" "''name''" fresh_world]
  by (simp add: example_outside_def example_config_def index_def fresh_world_def Second_def
      DataSourceType_def)

end
